theory Spec2Isabelle
  imports Complex_Main
begin

section \<open>Python values and exceptions\<close>

text \<open>
  The application (app.py) handles three kinds of data: the query parameters of a
  request (strings), the decoded JSON bodies of the two upstream services, and the
  dictionary handed to the template. A decoded JSON body is a Python value built from
  \<open>None\<close>, booleans, numbers, strings, lists and dictionaries with string keys;
  \<open>JNull\<close> is Python's \<open>None\<close>, which the code also uses for "absent".
  A dictionary is the list of its items in insertion order.
\<close>

datatype json =
    JNull
  | JBool bool
  | JNum rat
  | JStr string
  | JArr "json list"
  | JObj "(string \<times> json) list"

text \<open>The exception classes that the modelled operations raise.\<close>

datatype py_error =
    ConnectionError
  | HTTPError
  | JSONDecodeError
  | KeyError
  | IndexError
  | TypeError
  | AttributeError
  | ValueError
  | UnknownTimeZoneError

text \<open>Sequencing of two computations that may raise: the first exception wins.\<close>

definition bind_err :: "py_error + 'a \<Rightarrow> ('a \<Rightarrow> py_error + 'b) \<Rightarrow> py_error + 'b" where
  "bind_err x f = (case x of Inl e \<Rightarrow> Inl e | Inr v \<Rightarrow> f v)"

text \<open>Truth value of a Python object, as \<open>if x:\<close> tests it.\<close>

fun truthy :: "json \<Rightarrow> bool" where
  "truthy JNull = False"
| "truthy (JBool b) = b"
| "truthy (JNum n) = (n \<noteq> 0)"
| "truthy (JStr s) = (s \<noteq> [])"
| "truthy (JArr xs) = (xs \<noteq> [])"
| "truthy (JObj kvs) = (kvs \<noteq> [])"

definition starts_with :: "string \<Rightarrow> string \<Rightarrow> bool" where
  "starts_with s p = (take (length p) s = p)"

fun is_substring :: "string \<Rightarrow> string \<Rightarrow> bool" where
  "is_substring p [] = (p = [])"
| "is_substring p (c # cs) = (starts_with (c # cs) p \<or> is_substring p cs)"

text \<open>
  \<open>k in v\<close> for a string \<open>k\<close>: key membership on a dictionary, element membership on
  a list, substring test on a string, and a TypeError on anything else.
\<close>

fun py_contains :: "string \<Rightarrow> json \<Rightarrow> py_error + bool" where
  "py_contains k (JObj kvs) = Inr (map_of kvs k \<noteq> None)"
| "py_contains k (JArr xs) = Inr (JStr k \<in> set xs)"
| "py_contains k (JStr s) = Inr (is_substring k s)"
| "py_contains k v = Inl TypeError"

text \<open>\<open>v[k]\<close> for a string \<open>k\<close>: only a dictionary can be indexed by a string.\<close>

fun py_getitem :: "json \<Rightarrow> string \<Rightarrow> py_error + json" where
  "py_getitem (JObj kvs) k = (case map_of kvs k of None \<Rightarrow> Inl KeyError | Some x \<Rightarrow> Inr x)"
| "py_getitem v k = Inl TypeError"

text \<open>
  \<open>v[0]\<close>: the first element of a list or string, IndexError when it is empty, KeyError
  on a dictionary (whose keys are strings), TypeError otherwise.
\<close>

fun py_getitem0 :: "json \<Rightarrow> py_error + json" where
  "py_getitem0 (JArr []) = Inl IndexError"
| "py_getitem0 (JArr (x # xs)) = Inr x"
| "py_getitem0 (JStr []) = Inl IndexError"
| "py_getitem0 (JStr (c # cs)) = Inr (JStr [c])"
| "py_getitem0 (JObj kvs) = Inl KeyError"
| "py_getitem0 v = Inl TypeError"

text \<open>
  \<open>v.get(k, default)\<close>, with the default already evaluated by the caller, as Python
  evaluates every argument before the call.
\<close>

fun py_get :: "json \<Rightarrow> string \<Rightarrow> json \<Rightarrow> py_error + json" where
  "py_get (JObj kvs) k dflt = Inr (case map_of kvs k of None \<Rightarrow> dflt | Some x \<Rightarrow> x)"
| "py_get v k dflt = Inl AttributeError"

text \<open>
  \<open>d[k] = x\<close>: an existing key keeps its place and gets the new value, a new key is
  appended; item assignment with a string key on anything but a dictionary is a TypeError.
\<close>

fun dict_set :: "string \<Rightarrow> json \<Rightarrow> (string \<times> json) list \<Rightarrow> (string \<times> json) list" where
  "dict_set k x [] = [(k, x)]"
| "dict_set k x (kv # kvs) = (if fst kv = k then (k, x) # kvs else kv # dict_set k x kvs)"

fun py_setitem :: "json \<Rightarrow> string \<Rightarrow> json \<Rightarrow> py_error + json" where
  "py_setitem (JObj kvs) k x = Inr (JObj (dict_set k x kvs))"
| "py_setitem v k x = Inl TypeError"

text \<open>
  Interpolation of a value into an f-string. Strings are inserted as they are; the
  rendering of numbers, lists and dictionaries is a parameter.
\<close>

definition py_format :: "(json \<Rightarrow> string) \<Rightarrow> json \<Rightarrow> string" where
  "py_format other v =
     (case v of
        JStr s \<Rightarrow> s
      | JNull \<Rightarrow> ''None''
      | JBool b \<Rightarrow> (if b then ''True'' else ''False'')
      | _ \<Rightarrow> other v)"

section \<open>The outside world\<close>

text \<open>
  What one \<open>requests.get\<close> can produce: the call raises (no connection, timeout, ...),
  or it returns a response with a status code and a body that decodes as JSON or not.
\<close>

datatype http_outcome = Failed | Response int "json option"

text \<open>
  The two upstream services answer as they please; the answer may change with the time
  of the call (a clock reading in seconds). \<open>known_zone\<close> is the time zone database of
  pytz, \<open>py_repr\<close> the rendering of non-string values in f-strings.
\<close>

record world =
  geocode_api :: "nat \<Rightarrow> string \<Rightarrow> http_outcome"
  weather_api :: "nat \<Rightarrow> json \<Rightarrow> json \<Rightarrow> string \<Rightarrow> http_outcome"
  known_zone :: "string \<Rightarrow> bool"
  py_repr :: "json \<Rightarrow> string"

datatype outbound = GeocodeCall string | WeatherCall json json string

datatype log_entry = GeocodingError string py_error | WeatherApiError py_error

text \<open>
  The state of the process that the handler reads and writes: the outbound calls made so
  far, the lines written to the log, and the cache of the weather fetch (key, expiry
  time, value).
\<close>

record state =
  calls :: "outbound list"
  logged :: "log_entry list"
  cache :: "json \<times> json \<times> string \<Rightarrow> (nat \<times> json) option"

text \<open>\<open>response.raise_for_status()\<close>: statuses 400 to 599 raise.\<close>

definition raise_for_status :: "int \<Rightarrow> py_error + unit" where
  "raise_for_status code = (if 400 \<le> code \<and> code < 600 then Inl HTTPError else Inr ())"

text \<open>\<open>requests.get\<close>, \<open>raise_for_status\<close> and \<open>response.json()\<close> in a row.\<close>

definition fetch_json :: "http_outcome \<Rightarrow> py_error + json" where
  "fetch_json r =
     (case r of
        Failed \<Rightarrow> Inl ConnectionError
      | Response code body \<Rightarrow>
          bind_err (raise_for_status code)
            (\<lambda>_. case body of None \<Rightarrow> Inl JSONDecodeError | Some data \<Rightarrow> Inr data))"

section \<open>Display helpers\<close>


subsection \<open>Dates\<close>

text \<open>
  \<open>format_date_helper\<close> parses with \<open>strptime(date_str, '%Y-%m-%d')\<close> and prints with
  \<open>strftime('%a, %b %d')\<close>. Both belong to the datetime module of the standard library,
  which is not part of the repository; the definitions of this subsection up to
  \<open>strftime_a_b_d\<close> describe the three directives of each format string. Characters are
  ASCII, numbers are Python integers.
\<close>






















section \<open>Geocoding client\<close>

record location =
  latitude :: json
  longitude :: json
  location_name :: string

text \<open>
  The body of the \<open>try\<close> block of \<open>geocode_city\<close>. The default of
  \<open>result.get('admin1', result['country'])\<close> is evaluated before \<open>get\<close> is called, so
  \<open>result['country']\<close> is read whether or not \<open>admin1\<close> is there.
\<close>

definition geocode_city_body :: "world \<Rightarrow> nat \<Rightarrow> string \<Rightarrow> py_error + location option" where
  "geocode_city_body w t city_name =
     bind_err (fetch_json (geocode_api w t city_name)) (\<lambda>data.
     bind_err (py_contains ''results'' data) (\<lambda>has_results.
       if \<not> has_results then Inr None
       else
         bind_err (py_getitem data ''results'') (\<lambda>results.
         bind_err (py_getitem0 results) (\<lambda>result.
         bind_err (py_getitem result ''latitude'') (\<lambda>lat.
         bind_err (py_getitem result ''longitude'') (\<lambda>lon.
         bind_err (py_getitem result ''name'') (\<lambda>name.
         bind_err (py_getitem result ''country'') (\<lambda>country.
         bind_err (py_get result ''admin1'' country) (\<lambda>region.
           Inr (Some \<lparr>latitude = lat, longitude = lon,
                      location_name = py_format (py_repr w) name @ '', ''
                                        @ py_format (py_repr w) region\<rparr>))))))))))"

text \<open>
  \<open>geocode_city\<close>: one outbound call; \<open>except Exception\<close> catches every exception of
  the body, logs it with the city name and returns \<open>None\<close>.
\<close>

definition geocode_city ::
  "world \<Rightarrow> nat \<Rightarrow> string \<Rightarrow> state \<Rightarrow> (py_error + location option) \<times> state" where
  "geocode_city w t city_name s =
     (let s1 = s\<lparr>calls := calls s @ [GeocodeCall city_name]\<rparr>
      in case geocode_city_body w t city_name of
           Inr r \<Rightarrow> (Inr r, s1)
         | Inl e \<Rightarrow> (Inr None, s1\<lparr>logged := logged s1 @ [GeocodingError city_name e]\<rparr>))"

section \<open>Weather fetch client\<close>

text \<open>The function under the decorator: one outbound call, every exception logged.\<close>

definition get_weather_data_uncached ::
  "world \<Rightarrow> nat \<Rightarrow> json \<Rightarrow> json \<Rightarrow> string \<Rightarrow> state \<Rightarrow> json \<times> state" where
  "get_weather_data_uncached w t lat lon units_v s =
     (let s1 = s\<lparr>calls := calls s @ [WeatherCall lat lon units_v]\<rparr>
      in case fetch_json (weather_api w t lat lon units_v) of
           Inr data \<Rightarrow> (data, s1)
         | Inl e \<Rightarrow> (JNull, s1\<lparr>logged := logged s1 @ [WeatherApiError e]\<rparr>))"

text \<open>Line 11 of app.py: \<open>CACHE_DEFAULT_TIMEOUT\<close>, in seconds.\<close>

definition cache_timeout :: nat where
  "cache_timeout = 300"

text \<open>
  Modelled from the spec: the lookup of the caching library, which is not part of the
  repository. An entry is returned until its expiry time; a missing or expired entry
  reads as \<open>None\<close>.
\<close>

definition cache_get :: "state \<Rightarrow> nat \<Rightarrow> json \<times> json \<times> string \<Rightarrow> json" where
  "cache_get s t k =
     (case cache s k of
        None \<Rightarrow> JNull
      | Some (expires, v) \<Rightarrow> if t < expires then v else JNull)"

text \<open>
  Modelled from the spec: \<open>get_weather_data\<close> under the decorator \<open>cache.memoize()\<close> of
  the caching library, which is not part of the repository. A call looks its argument
  tuple up; a payload found there is returned without calling the function; otherwise
  the function is called and its result stored for \<open>cache_timeout\<close> seconds. The
  specification says nothing of a stored \<open>None\<close>: here, as in the library, it reads as a
  miss.
\<close>

definition get_weather_data ::
  "world \<Rightarrow> nat \<Rightarrow> json \<Rightarrow> json \<Rightarrow> string \<Rightarrow> state \<Rightarrow> json \<times> state" where
  "get_weather_data w t lat lon units_v s =
     (let rv = cache_get s t (lat, lon, units_v)
      in if rv \<noteq> JNull then (rv, s)
         else (case get_weather_data_uncached w t lat lon units_v s of
                 (rv', s1) \<Rightarrow>
                   (rv', s1\<lparr>cache := (cache s1)((lat, lon, units_v) \<mapsto> (t + cache_timeout, rv'))\<rparr>)))"

section \<open>Request handler\<close>

text \<open>The keyword arguments that \<open>index\<close> passes to \<open>render_template\<close>.\<close>

record page =
  weather_data :: json
  error :: "string option"
  location_query :: "string option"
  units :: string
  now :: "nat \<times> string option"
  current :: json
  daily :: json

definition quoted :: "string \<Rightarrow> string" where
  "quoted x = [CHR 0x27] @ x @ [CHR 0x27]"

text \<open>
  Lines 109 to 121 of app.py: the values of \<open>weather_data\<close> and \<open>error\<close> after the
  \<open>if location_query:\<close> block. An empty query string is false in Python.
\<close>

definition lookup_weather ::
  "world \<Rightarrow> nat \<Rightarrow> string option \<Rightarrow> string \<Rightarrow> state
     \<Rightarrow> (py_error + json \<times> string option) \<times> state" where
  "lookup_weather w t location_q units_v s =
     (case location_q of
        None \<Rightarrow> (Inr (JNull, None), s)
      | Some q \<Rightarrow>
          if q = [] then (Inr (JNull, None), s)
          else (case geocode_city w t q s of
                  (Inl e, s1) \<Rightarrow> (Inl e, s1)
                | (Inr None, s1) \<Rightarrow>
                    (Inr (JNull, Some (''Could not find '' @ quoted q @ ''. Try another city.'')), s1)
                | (Inr (Some geo), s1) \<Rightarrow>
                    (case get_weather_data w t (latitude geo) (longitude geo) units_v s1 of
                       (wd, s2) \<Rightarrow>
                         if truthy wd
                         then (case py_setitem wd ''locationName'' (JStr (location_name geo)) of
                                 Inl e \<Rightarrow> (Inl e, s2)
                               | Inr wd' \<Rightarrow> (Inr (wd', None), s2))
                         else (Inr (wd, Some (''Could not fetch weather for ''
                                                @ quoted (location_name geo) @ ''.'')), s2))))"

text \<open>
  \<open>pytz.timezone(zone)\<close>: \<open>None\<close> and an unknown name raise UnknownTimeZoneError, a value
  that is not a string has no \<open>upper\<close>.
\<close>

definition pytz_timezone :: "world \<Rightarrow> json \<Rightarrow> py_error + string" where
  "pytz_timezone w zone =
     (case zone of
        JStr name \<Rightarrow> if known_zone w name then Inr name else Inl UnknownTimeZoneError
      | JNull \<Rightarrow> Inl UnknownTimeZoneError
      | _ \<Rightarrow> Inl AttributeError)"

text \<open>
  Lines 123 to 138: the clock reading with the payload's time zone when it names one,
  then the arguments of the template. Nothing here is inside a \<open>try\<close>.
\<close>

definition display_time :: "world \<Rightarrow> nat \<Rightarrow> json \<Rightarrow> py_error + nat \<times> string option" where
  "display_time w t wd =
     (if truthy wd
      then bind_err (py_contains ''timezone'' wd) (\<lambda>has_tz.
             if has_tz
             then bind_err (py_getitem wd ''timezone'') (\<lambda>zone.
                  bind_err (pytz_timezone w zone) (\<lambda>tz. Inr (t, Some tz)))
             else Inr (t, None))
      else Inr (t, None))"

definition render_args ::
  "world \<Rightarrow> nat \<Rightarrow> string option \<Rightarrow> string \<Rightarrow> json \<Rightarrow> string option \<Rightarrow> py_error + page" where
  "render_args w t location_q units_v wd err =
     bind_err (display_time w t wd) (\<lambda>now_v.
     bind_err (if truthy wd then py_getitem wd ''current_weather'' else Inr JNull) (\<lambda>cur.
     bind_err (if truthy wd then py_getitem wd ''daily'' else Inr JNull) (\<lambda>dly.
       Inr \<lparr>weather_data = wd, error = err, location_query = location_q, units = units_v,
            now = now_v, current = cur, daily = dly\<rparr>)))"

text \<open>
  The handler of \<open>GET /\<close>. \<open>args\<close> are the query parameters in the order of the URL;
  \<open>request.args.get\<close> returns the first value of a key. A result \<open>Inl e\<close> is an
  exception that leaves the handler.
\<close>

definition index ::
  "world \<Rightarrow> nat \<Rightarrow> (string \<times> string) list \<Rightarrow> state \<Rightarrow> (py_error + page) \<times> state" where
  "index w t args s =
     (let location_q = map_of args ''location'';
          units_v = (case map_of args ''units'' of None \<Rightarrow> ''metric'' | Some u \<Rightarrow> u)
      in case lookup_weather w t location_q units_v s of
           (Inl e, s') \<Rightarrow> (Inl e, s')
         | (Inr (wd, err), s') \<Rightarrow> (render_args w t location_q units_v wd err, s'))"

section \<open>Example inputs\<close>

text \<open>
  A world in which the geocoding service and the weather service each give one fixed
  answer, a geocoding answer with one result, the result for Paris of the specification,
  a forecast payload, and the state of a process that has served no request yet.
\<close>

definition world_of :: "http_outcome \<Rightarrow> http_outcome \<Rightarrow> world" where
  "world_of geo_answer weather_answer =
     \<lparr>geocode_api = (\<lambda>t name. geo_answer),
      weather_api = (\<lambda>t lat lon units_v. weather_answer),
      known_zone = (\<lambda>z. z = ''Europe/Paris''),
      py_repr = (\<lambda>v. ''?'')\<rparr>"

definition found :: "(string \<times> json) list \<Rightarrow> http_outcome" where
  "found result = Response 200 (Some (JObj [(''results'', JArr [JObj result])]))"

definition paris :: "(string \<times> json) list" where
  "paris = [(''name'', JStr ''Paris''), (''latitude'', JNum (4885 / 100)),
            (''longitude'', JNum (235 / 100)), (''country'', JStr ''France''),
            (''admin1'', JStr ''Ile-de-France'')]"

definition forecast :: "(string \<times> json) list" where
  "forecast = [(''timezone'', JStr ''Europe/Paris''),
               (''current_weather'', JObj [(''temperature'', JNum 21)]),
               (''daily'', JObj [(''time'', JArr [JStr ''2024-03-05''])])]"

definition fresh :: state where
  "fresh = \<lparr>calls = [], logged = [], cache = (\<lambda>k. None)\<rparr>"

section \<open>Unit conversion\<close>


section \<open>Date formatting\<close>













section \<open>Geocoding client: results\<close>

lemma geocode_city_returns: "\<exists>r s'. geocode_city w t city s = (Inr r, s')"
  by (simp add: geocode_city_def Let_def split: sum.split)

lemma geocode_city_None_iff:
  "fst (geocode_city w t city s) = Inr None
   \<longleftrightarrow> (geocode_city_body w t city = Inr None \<or> (\<exists>e. geocode_city_body w t city = Inl e))"
  by (auto simp: geocode_city_def Let_def split: sum.split)

text \<open>
  C3. \<open>geocode_city\<close> is total: for every city name, whatever the service answers, it
  returns a location or \<open>None\<close> and no exception leaves it. It returns \<open>None\<close> when the
  call fails in transport, when the status is an error status (400 to 599), and when the
  response holds no results (no \<open>results\<close> key, or an empty list of results).
\<close>

theorem geocode_city_total:
  "(\<exists>r s'. geocode_city w t city s = (Inr r, s'))
   \<and> (geocode_api w t city = Failed \<longrightarrow> fst (geocode_city w t city s) = Inr None)
   \<and> (\<forall>code body. geocode_api w t city = Response code body \<and> 400 \<le> code \<and> code < 600
          \<longrightarrow> fst (geocode_city w t city s) = Inr None)
   \<and> (\<forall>code kvs. geocode_api w t city = Response code (Some (JObj kvs))
            \<and> map_of kvs ''results'' = None
          \<longrightarrow> fst (geocode_city w t city s) = Inr None)
   \<and> (\<forall>code kvs. geocode_api w t city = Response code (Some (JObj kvs))
            \<and> map_of kvs ''results'' = Some (JArr [])
          \<longrightarrow> fst (geocode_city w t city s) = Inr None)"
proof (intro conjI allI impI)
  show "\<exists>r s'. geocode_city w t city s = (Inr r, s')" by (rule geocode_city_returns)
next
  assume "geocode_api w t city = Failed"
  then have "geocode_city_body w t city = Inl ConnectionError"
    by (simp add: geocode_city_body_def fetch_json_def bind_err_def)
  then show "fst (geocode_city w t city s) = Inr None"
    by (simp add: geocode_city_None_iff)
next
  fix code body
  assume "geocode_api w t city = Response code body \<and> 400 \<le> code \<and> code < 600"
  then have "geocode_city_body w t city = Inl HTTPError"
    by (simp add: geocode_city_body_def fetch_json_def bind_err_def raise_for_status_def)
  then show "fst (geocode_city w t city s) = Inr None"
    by (simp add: geocode_city_None_iff)
next
  fix code kvs
  assume a: "geocode_api w t city = Response code (Some (JObj kvs))
             \<and> map_of kvs ''results'' = None"
  then have "fetch_json (geocode_api w t city) = Inr (JObj kvs)
             \<or> fetch_json (geocode_api w t city) = Inl HTTPError"
    by (simp add: fetch_json_def bind_err_def raise_for_status_def)
  with a have "geocode_city_body w t city = Inr None
               \<or> geocode_city_body w t city = Inl HTTPError"
    by (auto simp: geocode_city_body_def bind_err_def)
  then show "fst (geocode_city w t city s) = Inr None"
    by (auto simp: geocode_city_None_iff)
next
  fix code kvs
  assume a: "geocode_api w t city = Response code (Some (JObj kvs))
             \<and> map_of kvs ''results'' = Some (JArr [])"
  then have "fetch_json (geocode_api w t city) = Inr (JObj kvs)
             \<or> fetch_json (geocode_api w t city) = Inl HTTPError"
    by (simp add: fetch_json_def bind_err_def raise_for_status_def)
  with a have "geocode_city_body w t city = Inl IndexError
               \<or> geocode_city_body w t city = Inl HTTPError"
    by (auto simp: geocode_city_body_def bind_err_def)
  then show "fst (geocode_city w t city s) = Inr None"
    by (auto simp: geocode_city_None_iff)
qed

text \<open>
  The four cases at work: no connection, status 503, an answer without \<open>results\<close>, an
  answer with an empty list of results.
\<close>

theorem geocode_city_total_witness:
  "geocode_api (world_of Failed Failed) 0 ''Atlantis'' = Failed
   \<and> fst (geocode_city (world_of Failed Failed) 0 ''Atlantis'' fresh) = Inr None
   \<and> geocode_api (world_of (Response 503 None) Failed) 0 ''Atlantis'' = Response 503 None
   \<and> fst (geocode_city (world_of (Response 503 None) Failed) 0 ''Atlantis'' fresh) = Inr None
   \<and> fst (geocode_city (world_of (Response 200 (Some (JObj [(''generationtime_ms'', JNum 1)]))) Failed)
             0 ''Atlantis'' fresh) = Inr None
   \<and> fst (geocode_city (world_of (Response 200 (Some (JObj [(''results'', JArr [])]))) Failed)
             0 ''Atlantis'' fresh) = Inr None"
  using geocode_city_total [of "world_of Failed Failed" 0 "''Atlantis''" fresh]
    geocode_city_total [of "world_of (Response 503 None) Failed" 0 "''Atlantis''" fresh]
    geocode_city_total [of "world_of (Response 200 (Some (JObj [(''generationtime_ms'', JNum 1)]))) Failed"
      0 "''Atlantis''" fresh]
    geocode_city_total [of "world_of (Response 200 (Some (JObj [(''results'', JArr [])]))) Failed"
      0 "''Atlantis''" fresh]
  by (simp add: world_of_def)

text \<open>
  The display name of a result that carries a name and a country, both strings: the
  region \<open>admin1\<close> follows the name when the result has one, the country otherwise.
\<close>

lemma geocode_city_display_name:
  assumes "geocode_api w t city = Response code (Some (JObj kvs))"
    and "code < 400 \<or> 600 \<le> code"
    and "map_of kvs ''results'' = Some (JArr (JObj res # others))"
    and "map_of res ''latitude'' = Some lat" and "map_of res ''longitude'' = Some lon"
    and "map_of res ''name'' = Some (JStr name)"
    and "map_of res ''country'' = Some (JStr country)"
  shows "fst (geocode_city w t city s) =
           Inr (Some \<lparr>latitude = lat, longitude = lon,
                      location_name = name @ '', ''
                        @ (case map_of res ''admin1'' of
                             None \<Rightarrow> country
                           | Some region \<Rightarrow> py_format (py_repr w) region)\<rparr>)"
proof -
  have "fetch_json (geocode_api w t city) = Inr (JObj kvs)"
    using assms(1,2) by (auto simp: fetch_json_def bind_err_def raise_for_status_def)
  then have "geocode_city_body w t city =
           Inr (Some \<lparr>latitude = lat, longitude = lon,
                      location_name = name @ '', ''
                        @ (case map_of res ''admin1'' of
                             None \<Rightarrow> country
                           | Some region \<Rightarrow> py_format (py_repr w) region)\<rparr>)"
    using assms(3-7)
    by (simp add: geocode_city_body_def bind_err_def py_format_def split: option.split)
  then show ?thesis by (simp add: geocode_city_def Let_def)
qed

text \<open>
  C4. The display name is \<open>name, admin1\<close> when the first result carries \<open>admin1\<close>. The
  code reads \<open>result['country']\<close> before it looks for \<open>admin1\<close>: on a successful
  response whose first result has a name, coordinates and \<open>admin1\<close> but no \<open>country\<close>,
  the body raises KeyError and \<open>geocode_city\<close> returns \<open>None\<close>, no display name.
\<close>

theorem geocode_city_needs_country:
  "geocode_city_body
     (world_of (found [(''name'', JStr ''Pristina''), (''latitude'', JNum 42),
                       (''longitude'', JNum 21), (''admin1'', JStr ''Pristina'')]) Failed)
     0 ''Pristina'' = Inl KeyError
   \<and> fst (geocode_city
       (world_of (found [(''name'', JStr ''Pristina''), (''latitude'', JNum 42),
                         (''longitude'', JNum 21), (''admin1'', JStr ''Pristina'')]) Failed)
       0 ''Pristina'' fresh) = Inr None"
  by code_simp

section \<open>Request handler: results\<close>

lemma index_no_query:
  assumes "map_of args ''location'' = None \<or> map_of args ''location'' = Some []"
  shows "index w t args s =
           (Inr \<lparr>weather_data = JNull, error = None,
                 location_query = map_of args ''location'',
                 units = (case map_of args ''units'' of None \<Rightarrow> ''metric'' | Some u \<Rightarrow> u),
                 now = (t, None), current = JNull, daily = JNull\<rparr>, s)"
  using assms
  by (auto simp: index_def lookup_weather_def render_args_def display_time_def bind_err_def)

text \<open>
  C6. A request without a \<open>location\<close> parameter renders with \<open>weather_data\<close> and
  \<open>error\<close> both \<open>None\<close>, and the state is the one before the request: no geocoding call
  and no weather call was made.
\<close>

theorem index_without_location:
  assumes "map_of args ''location'' = None"
  shows "index w t args s =
           (Inr \<lparr>weather_data = JNull, error = None, location_query = None,
                 units = (case map_of args ''units'' of None \<Rightarrow> ''metric'' | Some u \<Rightarrow> u),
                 now = (t, None), current = JNull, daily = JNull\<rparr>, s)
         \<and> calls (snd (index w t args s)) = calls s"
  using index_no_query [of args w t s] assms by simp

text \<open>A request that only chooses the units, served by a fresh process.\<close>

theorem index_without_location_witness:
  "map_of [(''units'', ''fahrenheit'')] ''location'' = None
   \<and> index (world_of (found paris) Failed) 7 [(''units'', ''fahrenheit'')] fresh =
       (Inr \<lparr>weather_data = JNull, error = None, location_query = None,
             units = ''fahrenheit'', now = (7, None), current = JNull, daily = JNull\<rparr>, fresh)
   \<and> calls (snd (index (world_of (found paris) Failed) 7 [(''units'', ''fahrenheit'')] fresh)) = []"
  using index_without_location [of "[(''units'', ''fahrenheit'')]" "world_of (found paris) Failed" 7 fresh]
  by (simp add: fresh_def)

text \<open>
  C10. A request whose \<open>location\<close> parameter is the empty string is handled as the
  request without the parameter is: the page is the same but for the query it echoes,
  \<open>weather_data\<close> and \<open>error\<close> are \<open>None\<close>, and no call is made.
\<close>

theorem index_empty_location:
  assumes "map_of args ''location'' = Some []"
    and "map_of args0 ''location'' = None"
    and "map_of args0 ''units'' = map_of args ''units''"
  shows "\<exists>pg. index w t args0 s = (Inr pg, s)
           \<and> index w t args s = (Inr (pg\<lparr>location_query := Some []\<rparr>), s)
           \<and> weather_data pg = JNull \<and> error pg = None
           \<and> calls (snd (index w t args s)) = calls s"
  using index_no_query [of args w t s] index_no_query [of args0 w t s] assms by simp

text \<open>The requests \<open>/?location=\<close> and \<open>/\<close>, side by side.\<close>

theorem index_empty_location_witness:
  "map_of [(''location'', [])] ''location'' = Some []
   \<and> map_of [] ''location'' = (None :: string option)
   \<and> (\<exists>pg. index (world_of (found paris) Failed) 7 [] fresh = (Inr pg, fresh)
          \<and> index (world_of (found paris) Failed) 7 [(''location'', [])] fresh
              = (Inr (pg\<lparr>location_query := Some []\<rparr>), fresh)
          \<and> weather_data pg = JNull \<and> error pg = None
          \<and> calls (snd (index (world_of (found paris) Failed) 7 [(''location'', [])] fresh))
              = calls fresh)"
  using index_empty_location [of "[(''location'', [])]" "[]" "world_of (found paris) Failed" 7 fresh]
  by simp

text \<open>
  C5. When the request names a place and geocoding returns \<open>None\<close>, the page renders
  with the error \<open>Could not find '<query>'. Try another city.\<close>, the query as the
  request gave it, and with \<open>weather_data\<close> \<open>None\<close>.
\<close>

theorem index_city_not_found:
  assumes "map_of args ''location'' = Some q" and "q \<noteq> []"
    and "fst (geocode_city w t q s) = Inr None"
  shows "\<exists>pg. fst (index w t args s) = Inr pg
           \<and> error pg = Some (''Could not find '' @ quoted q @ ''. Try another city.'')
           \<and> weather_data pg = JNull \<and> current pg = JNull \<and> daily pg = JNull
           \<and> location_query pg = Some q"
proof -
  obtain s1 where g: "geocode_city w t q s = (Inr None, s1)"
    using assms(3) by (cases "geocode_city w t q s") auto
  show ?thesis
    using assms(1,2) g
    by (simp add: index_def lookup_weather_def render_args_def display_time_def bind_err_def)
qed

text \<open>The request \<open>/?location=Nowhereville\<close>, for which the service finds nothing.\<close>

theorem index_city_not_found_witness:
  "map_of [(''location'', ''Nowhereville'')] ''location'' = Some ''Nowhereville''
   \<and> ''Nowhereville'' \<noteq> []
   \<and> fst (geocode_city (world_of (Response 200 (Some (JObj []))) Failed) 0 ''Nowhereville'' fresh)
       = Inr None
   \<and> (\<exists>pg. fst (index (world_of (Response 200 (Some (JObj []))) Failed) 0
                  [(''location'', ''Nowhereville'')] fresh) = Inr pg
          \<and> error pg = Some (''Could not find '' @ [CHR 0x27] @ ''Nowhereville'' @ [CHR 0x27]
                               @ ''. Try another city.'')
          \<and> weather_data pg = JNull)"
proof -
  have g: "fst (geocode_city (world_of (Response 200 (Some (JObj []))) Failed) 0 ''Nowhereville'' fresh)
             = Inr None"
    by code_simp
  have m: "map_of [(''location'', ''Nowhereville'')] ''location'' = Some ''Nowhereville''"
    and n: "''Nowhereville'' \<noteq> []" by simp_all
  from index_city_not_found [OF m n g] g show ?thesis by (auto simp: quoted_def)
qed

subsection \<open>The payload handed to the view\<close>

lemma map_of_dict_set: "map_of (dict_set k x kvs) = (map_of kvs)(k \<mapsto> x)"
  by (induction kvs) (auto simp: fun_eq_iff)

lemma filter_dict_set:
  "filter (\<lambda>kv. fst kv \<noteq> k) (dict_set k x kvs) = filter (\<lambda>kv. fst kv \<noteq> k) kvs"
  by (induction kvs) auto

lemma py_setitem_Inr:
  assumes "py_setitem v k x = Inr v'"
  shows "\<exists>kvs. v = JObj kvs \<and> v' = JObj (dict_set k x kvs)"
  using assms by (cases v) auto

lemma render_args_weather_data:
  assumes "render_args w t lq u wd err = Inr pg"
  shows "weather_data pg = wd \<and> error pg = err"
  using assms
  by (auto simp: render_args_def bind_err_def split: sum.splits if_splits)

text \<open>
  C7. When the handler obtains a forecast payload and renders, the payload it hands to
  the view is the fetched dictionary with the key \<open>locationName\<close> set to the display
  name of the location: every other key has the value the fetch returned, and the other
  items are the same, in the same order.
\<close>

theorem index_only_adds_location_name:
  assumes "map_of args ''location'' = Some q" and "q \<noteq> []"
    and "geocode_city w t q s = (Inr (Some geo), s1)"
    and "get_weather_data w t (latitude geo) (longitude geo)
           (case map_of args ''units'' of None \<Rightarrow> ''metric'' | Some u \<Rightarrow> u) s1 = (payload, s2)"
    and "truthy payload"
    and "fst (index w t args s) = Inr pg"
  shows "\<exists>kvs kvs'. payload = JObj kvs \<and> weather_data pg = JObj kvs'
           \<and> kvs' = dict_set ''locationName'' (JStr (location_name geo)) kvs
           \<and> map_of kvs' ''locationName'' = Some (JStr (location_name geo))
           \<and> (\<forall>k. k \<noteq> ''locationName'' \<longrightarrow> map_of kvs' k = map_of kvs k)
           \<and> filter (\<lambda>kv. fst kv \<noteq> ''locationName'') kvs'
               = filter (\<lambda>kv. fst kv \<noteq> ''locationName'') kvs"
proof -
  let ?u = "case map_of args ''units'' of None \<Rightarrow> ''metric'' | Some u \<Rightarrow> u"
  let ?name = "JStr (location_name geo)"
  obtain wd' where set: "py_setitem payload ''locationName'' ?name = Inr wd'"
    and ren: "render_args w t (Some q) ?u wd' None = Inr pg"
    using assms
    by (auto simp: index_def lookup_weather_def split: sum.splits)
  from py_setitem_Inr [OF set] obtain kvs
    where p: "payload = JObj kvs" and w: "wd' = JObj (dict_set ''locationName'' ?name kvs)"
    by blast
  from render_args_weather_data [OF ren] w
  have "weather_data pg = JObj (dict_set ''locationName'' ?name kvs)" by simp
  with p show ?thesis
    by (simp add: map_of_dict_set filter_dict_set)
qed

text \<open>The request \<open>/?location=Paris\<close> with a forecast of three keys.\<close>

theorem index_only_adds_location_name_witness:
  "\<exists>geo s1 s2 pg.
     map_of [(''location'', ''Paris'')] ''location'' = Some ''Paris'' \<and> ''Paris'' \<noteq> []
     \<and> geocode_city (world_of (found paris) (Response 200 (Some (JObj forecast)))) 0 ''Paris'' fresh
         = (Inr (Some geo), s1)
     \<and> get_weather_data (world_of (found paris) (Response 200 (Some (JObj forecast)))) 0
           (latitude geo) (longitude geo) ''metric'' s1 = (JObj forecast, s2)
     \<and> truthy (JObj forecast)
     \<and> fst (index (world_of (found paris) (Response 200 (Some (JObj forecast)))) 0
              [(''location'', ''Paris'')] fresh) = Inr pg
     \<and> weather_data pg = JObj (forecast @ [(''locationName'', JStr ''Paris, Ile-de-France'')])
     \<and> (\<exists>kvs kvs'. JObj forecast = JObj kvs \<and> weather_data pg = JObj kvs'
           \<and> kvs' = dict_set ''locationName'' (JStr (location_name geo)) kvs
           \<and> map_of kvs' ''locationName'' = Some (JStr (location_name geo))
           \<and> (\<forall>k. k \<noteq> ''locationName'' \<longrightarrow> map_of kvs' k = map_of kvs k)
           \<and> filter (\<lambda>kv. fst kv \<noteq> ''locationName'') kvs'
               = filter (\<lambda>kv. fst kv \<noteq> ''locationName'') kvs)"
proof -
  let ?w = "world_of (found paris) (Response 200 (Some (JObj forecast)))"
  let ?geo = "\<lparr>latitude = JNum (4885 / 100), longitude = JNum (235 / 100),
               location_name = ''Paris, Ile-de-France''\<rparr>"
  let ?pg = "\<lparr>weather_data = JObj (forecast @ [(''locationName'', JStr ''Paris, Ile-de-France'')]),
              error = None, location_query = Some ''Paris'', units = ''metric'',
              now = (0, Some ''Europe/Paris''),
              current = JObj [(''temperature'', JNum 21)],
              daily = JObj [(''time'', JArr [JStr ''2024-03-05''])]\<rparr>"
  let ?s1 = "snd (geocode_city ?w 0 ''Paris'' fresh)"
  let ?s2 = "snd (get_weather_data ?w 0 (latitude ?geo) (longitude ?geo) ''metric'' ?s1)"
  have g1: "fst (geocode_city ?w 0 ''Paris'' fresh) = Inr (Some ?geo)" by code_simp
  have g: "geocode_city ?w 0 ''Paris'' fresh = (Inr (Some ?geo), ?s1)"
    using g1 by (simp add: prod_eq_iff)
  have f1: "fst (get_weather_data ?w 0 (latitude ?geo) (longitude ?geo) ''metric'' ?s1) = JObj forecast"
    by code_simp
  have f: "get_weather_data ?w 0 (latitude ?geo) (longitude ?geo) ''metric'' ?s1
           = (JObj forecast, ?s2)"
    using f1 by (simp add: prod_eq_iff)
  have f': "get_weather_data ?w 0 (latitude ?geo) (longitude ?geo)
             (case map_of [(''location'', ''Paris'')] ''units'' of None \<Rightarrow> ''metric'' | Some u \<Rightarrow> u) ?s1
           = (JObj forecast, ?s2)"
    using f by simp
  have tr: "truthy (JObj forecast)" by code_simp
  have ix: "fst (index ?w 0 [(''location'', ''Paris'')] fresh) = Inr ?pg"
    by code_simp
  have m: "map_of [(''location'', ''Paris'')] ''location'' = Some ''Paris''" and n: "''Paris'' \<noteq> []"
    by simp_all
  have wd: "weather_data ?pg = JObj (forecast @ [(''locationName'', JStr ''Paris, Ile-de-France'')])"
    by simp
  note concl = index_only_adds_location_name [OF m n g f' tr ix]
  show ?thesis
    by (intro exI [of _ ?geo] exI [of _ ?s1] exI [of _ ?s2] exI [of _ ?pg] conjI
        m n g f tr ix wd concl)
qed

text \<open>
  What the handler does once the place is found. A weather fetch that returns nothing is
  reported on the page; a payload with \<open>current_weather\<close>, \<open>daily\<close> and no or a known
  time zone is rendered.
\<close>

lemma index_weather_unavailable:
  assumes "map_of args ''location'' = Some q" and "q \<noteq> []"
    and "geocode_city w t q s = (Inr (Some geo), s1)"
    and "get_weather_data w t (latitude geo) (longitude geo)
           (case map_of args ''units'' of None \<Rightarrow> ''metric'' | Some u \<Rightarrow> u) s1 = (payload, s2)"
    and "\<not> truthy payload"
  shows "\<exists>pg. index w t args s = (Inr pg, s2)
           \<and> error pg = Some (''Could not fetch weather for '' @ quoted (location_name geo) @ ''.'')
           \<and> weather_data pg = payload \<and> current pg = JNull \<and> daily pg = JNull"
  using assms
  by (simp add: index_def lookup_weather_def render_args_def display_time_def bind_err_def)

lemma dict_set_nonempty: "dict_set k x kvs \<noteq> []"
  by (cases kvs) auto

lemma index_renders_complete_payload:
  assumes "map_of args ''location'' = Some q" and "q \<noteq> []"
    and "geocode_city w t q s = (Inr (Some geo), s1)"
    and "get_weather_data w t (latitude geo) (longitude geo)
           (case map_of args ''units'' of None \<Rightarrow> ''metric'' | Some u \<Rightarrow> u) s1 = (JObj kvs, s2)"
    and "kvs \<noteq> []"
    and "map_of kvs ''current_weather'' = Some cur" and "map_of kvs ''daily'' = Some dly"
    and "map_of kvs ''timezone'' = None
         \<or> (\<exists>z. map_of kvs ''timezone'' = Some (JStr z) \<and> known_zone w z)"
  shows "\<exists>pg. index w t args s = (Inr pg, s2) \<and> error pg = None
           \<and> weather_data pg = JObj (dict_set ''locationName'' (JStr (location_name geo)) kvs)
           \<and> current pg = cur \<and> daily pg = dly"
  using assms
  by (auto simp: index_def lookup_weather_def render_args_def display_time_def bind_err_def
      pytz_timezone_def map_of_dict_set dict_set_nonempty)

text \<open>
  C1. The handler always returns a rendered page, also for a forecast payload whose
  time zone is invalid or which lacks the current conditions or the daily record. The
  code reads \<open>current_weather\<close> and \<open>daily\<close> and calls \<open>pytz.timezone\<close> outside every
  \<open>try\<close>: with a successful geocoding, a payload without \<open>current_weather\<close>, one with
  an unknown time zone and one without \<open>daily\<close> each make the handler raise.
\<close>

theorem index_raises_on_incomplete_payload:
  "fst (index (world_of (found paris) (Response 200 (Some (JObj [(''timezone'', JStr ''Europe/Paris'')]))))
          0 [(''location'', ''Paris'')] fresh) = Inl KeyError
   \<and> fst (index (world_of (found paris)
                  (Response 200 (Some (JObj [(''timezone'', JStr ''Mars/Phobos''),
                     (''current_weather'', JObj []), (''daily'', JObj [])]))))
          0 [(''location'', ''Paris'')] fresh) = Inl UnknownTimeZoneError
   \<and> fst (index (world_of (found paris)
                  (Response 200 (Some (JObj [(''current_weather'', JObj [])]))))
          0 [(''location'', ''Paris'')] fresh) = Inl KeyError"
  by code_simp

section \<open>Weather fetch client: results\<close>





end
